theory Spec2Isabelle
  imports Complex_Main "HOL-Library.Stream"
begin

section \<open>The environment of the controller\<close>

text \<open>
  The program is a MicroPython polling loop for an ESP8266 board (\<^verbatim>\<open>src/main.py\<close>) with
  three sensor classes (\<^verbatim>\<open>src/sensors\<close>) and two actuator classes
  (\<^verbatim>\<open>src/controllers\<close>).  Every module probes once, at import, whether it runs on
  the board (\<^verbatim>\<open>MICROPYTHON = True\<close>) or on a desktop Python (simulation); the flag is
  the parameter \<open>mp\<close> of every function that branches on it.

  What the program cannot decide itself is kept in one record, the \<open>world\<close>:
  \<^item> for every input line, the values it will show at the successive reads the program makes
    of it (the head of the stream is the next read).  On the board a read is
    \<^verbatim>\<open>ADC.read()\<close> or \<^verbatim>\<open>Pin.value()\<close>; in simulation it is the draw
    \<^verbatim>\<open>random.randint(200, 600)\<close> or \<^verbatim>\<open>random.choice([0, 1])\<close> that stands for the line;
  \<^item> the answers of \<^verbatim>\<open>wlan.isconnected()\<close> and the fate of every HTTP request;
  \<^item> what the program has sent to the network and printed so far.
\<close>

text \<open>
  The exceptions a library call of the program can raise: a network failure, a bad
  argument and an argument out of range.  All are subclasses of \<^verbatim>\<open>Exception\<close>.
  The operator's \<^verbatim>\<open>KeyboardInterrupt\<close> is not among them; it is the point where
  \<open>run\<close> stops.
\<close>

datatype exn = OSError | ValueError | OverflowError

text \<open>
  Why a call does not come back with a value: it raised, or it never returns.  The second
  is a call that waits for the network with nothing to bound the wait;
  \<^verbatim>\<open>except Exception\<close> catches the first only.
\<close>

datatype stop = Raised exn | Blocked

text \<open>The two URLs the program requests, without the constant host and token.\<close>

datatype request =
    Update int int      \<comment> \<open>\<^verbatim>\<open>/external/api/update?token=..&v{virtual_pin}={value}\<close>\<close>
  | LogEvent string     \<comment> \<open>\<^verbatim>\<open>/external/api/logEvent?token=..&code={event_code}\<close>\<close>

text \<open>
  One HTTP exchange: \<^verbatim>\<open>requests.get\<close> returns a response that closes, or
  \<^verbatim>\<open>requests.get\<close> raises, or it returns a response whose \<^verbatim>\<open>close()\<close> raises,
  or \<^verbatim>\<open>requests.get\<close> never returns: the program calls it without a timeout.
\<close>

datatype net_outcome = Served | GetRaises | CloseRaises | NoReturn

record gas_status =
  gs_analog :: int
  gs_digital :: int
  gs_detected :: bool
  gs_warmup_complete :: bool
  gs_status_text :: string

record ldr_status =
  ls_digital :: int
  ls_is_dark :: bool
  ls_light_status :: string
  ls_action :: string

record tank_status =
  ts_overhead_full :: bool
  ts_underground_empty :: bool
  ts_can_run_motor :: bool
  ts_overhead_status :: string
  ts_underground_status :: string
  ts_motor_status :: string

record relay_status =
  rs_light :: bool
  rs_fan :: bool
  rs_motor :: bool
  rs_garden :: bool

text \<open>
  One constructor for every message the program prints; a banner of several
  \<^verbatim>\<open>print\<close> calls in a row is one message.  Pictographs are left out of the texts.
\<close>

datatype line =
    WarmupStart int | WarmupProgress int int | WarmupReady int
  | RelaysOff | LightMsg bool | FanMsg bool | MotorMsg bool | GardenMsg bool
  | AlarmOnMsg | AlarmOffMsg | BeepingMsg int
  | GasLeakBanner int int     \<comment> \<open>gas level, threshold\<close>
  | GasNormalMsg
  | BlynkUpdateError exn | BlynkEventError exn
  | StatusPanel gas_status ldr_status tank_status relay_status bool
  | WifiConnecting | WifiDot | WifiConnected | WifiFailed | WifiAlready
  | Progress string

record world =
  adc_in :: "int stream"
  mq2_in :: "int stream"
  ldr_in :: "int stream"
  overhead_in :: "int stream"
  underground_in :: "int stream"
  wifi_in :: "bool stream"
  net_in :: "net_outcome stream"
  net_out :: "request list"
  console :: "line list"

definition print_line :: "line \<Rightarrow> world \<Rightarrow> world" where
  "print_line l w = w\<lparr>console := console w @ [l]\<rparr>"

text \<open>
  \<^verbatim>\<open>time.sleep\<close>: elapsed time is not part of the model.  CPython (the simulation)
  raises \<^verbatim>\<open>ValueError\<close> for a negative duration and \<^verbatim>\<open>OverflowError\<close> for one
  whose count of nanoseconds does not fit a signed 64-bit integer; the model keeps both
  exits for both modes, so that a property proved of a caller also covers the state such
  an exit leaves.
\<close>

definition time_sleep :: "real \<Rightarrow> stop + unit" where
  "time_sleep duration =
     (if duration < 0 then Inl (Raised ValueError)
      else if duration * 10 ^ 9 > 2 ^ 63 - 1 then Inl (Raised OverflowError)
      else Inr ())"

section \<open>Sensors\<close>

subsection \<open>\<^verbatim>\<open>sensors/gas_sensor.py\<close>\<close>

text \<open>
  \<open>gas_simulated_value\<close> is the attribute \<^verbatim>\<open>simulated_value\<close>, which exists in
  simulation only; on the board no method reads or writes the field.
\<close>

record GasSensor =
  threshold :: int
  calibration_value :: int
  warmup_complete :: bool
  gas_simulated_value :: int

definition GasSensor_init :: "int \<Rightarrow> int \<Rightarrow> int \<Rightarrow> GasSensor" where
  "GasSensor_init analog_pin digital_pin thr =
     \<lparr>threshold = thr, calibration_value = 0, warmup_complete = False,
      gas_simulated_value = 250\<rparr>"

definition read_analog :: "bool \<Rightarrow> GasSensor \<Rightarrow> world \<Rightarrow> int \<times> GasSensor \<times> world" where
  "read_analog mp g w =
     (let v = shd (adc_in w); w' = w\<lparr>adc_in := stl (adc_in w)\<rparr>
      in if mp then (v, g, w') else (v, g\<lparr>gas_simulated_value := v\<rparr>, w'))"

definition read_digital :: "bool \<Rightarrow> GasSensor \<Rightarrow> world \<Rightarrow> int \<times> world" where
  "read_digital mp g w =
     (if mp then (shd (mq2_in w), w\<lparr>mq2_in := stl (mq2_in w)\<rparr>)
      else ((if gas_simulated_value g > threshold g then 1 else 0), w))"

definition is_gas_detected :: "bool \<Rightarrow> GasSensor \<Rightarrow> world \<Rightarrow> bool \<times> GasSensor \<times> world" where
  "is_gas_detected mp g w =
     (let (analog_value, g', w') = read_analog mp g w
      in (analog_value > threshold g', g', w'))"

definition get_gas_level :: "bool \<Rightarrow> GasSensor \<Rightarrow> world \<Rightarrow> int \<times> GasSensor \<times> world" where
  "get_gas_level mp g w = read_analog mp g w"

definition GasSensor_get_status ::
  "bool \<Rightarrow> GasSensor \<Rightarrow> world \<Rightarrow> gas_status \<times> GasSensor \<times> world" where
  "GasSensor_get_status mp g w =
     (let (analog, g1, w1) = read_analog mp g w;
          (digital, w2) = read_digital mp g1 w1;
          (detected, g3, w3) = is_gas_detected mp g1 w2
      in (\<lparr>gs_analog = analog, gs_digital = digital, gs_detected = detected,
           gs_warmup_complete = warmup_complete g3,
           gs_status_text = (if detected then ''GAS DETECTED'' else ''Normal'')\<rparr>,
          g3, w3))"

text \<open>
  \<^verbatim>\<open>warmup\<close>: one progress line and one second of sleep for every \<^verbatim>\<open>i\<close> in
  \<^verbatim>\<open>range(duration)\<close>, then one analog read that becomes the baseline.
\<close>

definition warmup :: "bool \<Rightarrow> int \<Rightarrow> GasSensor \<Rightarrow> world \<Rightarrow> GasSensor \<times> world" where
  "warmup mp duration g w =
     (let w1 = foldl (\<lambda>w' i. print_line (WarmupProgress (i + 1) duration) w')
                 (print_line (WarmupStart duration) w) [0 .. duration - 1];
          (v, g1, w2) = read_analog mp g w1;
          g2 = g1\<lparr>calibration_value := v, warmup_complete := True\<rparr>
      in (g2, print_line (WarmupReady (calibration_value g2)) w2))"

subsection \<open>\<^verbatim>\<open>sensors/ldr_sensor.py\<close>\<close>

record LDRSensor =
  ldr_simulated_value :: int

definition LDRSensor_init :: "int \<Rightarrow> LDRSensor" where
  "LDRSensor_init digital_pin = \<lparr>ldr_simulated_value = 1\<rparr>"

text \<open>The module outputs low (0) when dark, high (1) when light.\<close>

definition is_dark :: "bool \<Rightarrow> LDRSensor \<Rightarrow> world \<Rightarrow> bool \<times> LDRSensor \<times> world" where
  "is_dark mp l w =
     (let v = shd (ldr_in w); w' = w\<lparr>ldr_in := stl (ldr_in w)\<rparr>
      in if mp then (v = 0, l, w') else (v = 0, l\<lparr>ldr_simulated_value := v\<rparr>, w'))"

definition LDRSensor_read :: "bool \<Rightarrow> LDRSensor \<Rightarrow> world \<Rightarrow> int \<times> world" where
  "LDRSensor_read mp l w =
     (if mp then (shd (ldr_in w), w\<lparr>ldr_in := stl (ldr_in w)\<rparr>)
      else (ldr_simulated_value l, w))"

definition LDRSensor_get_status ::
  "bool \<Rightarrow> LDRSensor \<Rightarrow> world \<Rightarrow> ldr_status \<times> LDRSensor \<times> world" where
  "LDRSensor_get_status mp l w =
     (let (dark, l1, w1) = is_dark mp l w;
          (digital_val, w2) = LDRSensor_read mp l1 w1
      in (\<lparr>ls_digital = digital_val, ls_is_dark = dark,
           ls_light_status = (if dark then ''Dark'' else ''Light''),
           ls_action = (if dark then ''Garden light ON'' else ''Garden light OFF'')\<rparr>,
          l1, w2))"

subsection \<open>\<^verbatim>\<open>sensors/water_level.py\<close>\<close>

text \<open>
  \<open>overhead_state\<close> and \<open>underground_state\<close> exist in simulation only, like
  \<open>gas_simulated_value\<close>.  The overhead switch reads 1 when the tank is full, the
  underground switch reads 0 when the tank is empty.
\<close>

record WaterLevelSensor =
  overhead_state :: int
  underground_state :: int

definition WaterLevelSensor_init :: "int \<Rightarrow> int \<Rightarrow> WaterLevelSensor" where
  "WaterLevelSensor_init overhead_pin underground_pin =
     \<lparr>overhead_state = 0, underground_state = 1\<rparr>"

definition is_overhead_full ::
  "bool \<Rightarrow> WaterLevelSensor \<Rightarrow> world \<Rightarrow> bool \<times> WaterLevelSensor \<times> world" where
  "is_overhead_full mp s w =
     (let v = shd (overhead_in w); w' = w\<lparr>overhead_in := stl (overhead_in w)\<rparr>
      in if mp then (v = 1, s, w') else (v = 1, s\<lparr>overhead_state := v\<rparr>, w'))"

definition is_underground_empty ::
  "bool \<Rightarrow> WaterLevelSensor \<Rightarrow> world \<Rightarrow> bool \<times> WaterLevelSensor \<times> world" where
  "is_underground_empty mp s w =
     (let v = shd (underground_in w); w' = w\<lparr>underground_in := stl (underground_in w)\<rparr>
      in if mp then (v = 0, s, w') else (v = 0, s\<lparr>underground_state := v\<rparr>, w'))"

definition can_run_motor ::
  "bool \<Rightarrow> WaterLevelSensor \<Rightarrow> world \<Rightarrow> bool \<times> WaterLevelSensor \<times> world" where
  "can_run_motor mp s w =
     (let (overhead_full, s1, w1) = is_overhead_full mp s w;
          (underground_empty, s2, w2) = is_underground_empty mp s1 w1
      in (\<not> overhead_full \<and> \<not> underground_empty, s2, w2))"

definition get_tank_status ::
  "bool \<Rightarrow> WaterLevelSensor \<Rightarrow> world \<Rightarrow> tank_status \<times> WaterLevelSensor \<times> world" where
  "get_tank_status mp s w =
     (let (overhead_full, s1, w1) = is_overhead_full mp s w;
          (underground_empty, s2, w2) = is_underground_empty mp s1 w1;
          (motor_allowed, s3, w3) = can_run_motor mp s2 w2
      in (\<lparr>ts_overhead_full = overhead_full, ts_underground_empty = underground_empty,
           ts_can_run_motor = motor_allowed,
           ts_overhead_status = (if overhead_full then ''Full'' else ''Not Full''),
           ts_underground_status = (if underground_empty then ''Empty'' else ''Has Water''),
           ts_motor_status = (if motor_allowed then ''Can Run'' else ''Cannot Run'')\<rparr>,
          s3, w3))"

section \<open>Actuators\<close>

subsection \<open>\<^verbatim>\<open>controllers/relay_controller.py\<close>\<close>

text \<open>
  A field is the level of the relay's output: the value last written to the
  \<^verbatim>\<open>Pin\<close> on the board, the attribute \<^verbatim>\<open>light_state\<close> (and so on) in simulation.
  Both branches of every method write the same value.  The relays are active low:
  0 energises the load, 1 releases it.
\<close>

record RelayController =
  light_state :: int
  fan_state :: int
  motor_state :: int
  garden_state :: int

definition turn_off_all :: "RelayController \<Rightarrow> world \<Rightarrow> RelayController \<times> world" where
  "turn_off_all r w =
     (r\<lparr>light_state := 1, fan_state := 1, motor_state := 1, garden_state := 1\<rparr>,
      print_line RelaysOff w)"

definition RelayController_init ::
  "int \<Rightarrow> int \<Rightarrow> int \<Rightarrow> int \<Rightarrow> world \<Rightarrow> RelayController \<times> world" where
  "RelayController_init light_pin fan_pin motor_pin garden_pin w =
     turn_off_all \<lparr>light_state = 1, fan_state = 1, motor_state = 1, garden_state = 1\<rparr> w"

definition control_light :: "bool \<Rightarrow> RelayController \<Rightarrow> world \<Rightarrow> RelayController \<times> world" where
  "control_light state r w =
     (let v = (if state then 0 else 1)
      in (r\<lparr>light_state := v\<rparr>, print_line (LightMsg state) w))"

definition control_fan :: "bool \<Rightarrow> RelayController \<Rightarrow> world \<Rightarrow> RelayController \<times> world" where
  "control_fan state r w =
     (let v = (if state then 0 else 1)
      in (r\<lparr>fan_state := v\<rparr>, print_line (FanMsg state) w))"

definition control_motor :: "bool \<Rightarrow> RelayController \<Rightarrow> world \<Rightarrow> RelayController \<times> world" where
  "control_motor state r w =
     (let v = (if state then 0 else 1)
      in (r\<lparr>motor_state := v\<rparr>, print_line (MotorMsg state) w))"

definition control_garden_light ::
  "bool \<Rightarrow> RelayController \<Rightarrow> world \<Rightarrow> RelayController \<times> world" where
  "control_garden_light state r w =
     (let v = (if state then 0 else 1)
      in (r\<lparr>garden_state := v\<rparr>, print_line (GardenMsg state) w))"

text \<open>The readback: Python's \<^verbatim>\<open>not x\<close> on a level is true exactly for 0.\<close>

definition RelayController_get_status :: "RelayController \<Rightarrow> relay_status" where
  "RelayController_get_status r =
     \<lparr>rs_light = (light_state r = 0), rs_fan = (fan_state r = 0),
      rs_motor = (motor_state r = 0), rs_garden = (garden_state r = 0)\<rparr>"

subsection \<open>\<^verbatim>\<open>controllers/buzzer_controller.py\<close>\<close>

record BuzzerController =
  buzzer_state :: int
  is_alarming :: bool

definition BuzzerController_init :: "int \<Rightarrow> BuzzerController" where
  "BuzzerController_init buzzer_pin = \<lparr>buzzer_state = 0, is_alarming = False\<rparr>"

definition alarm_on :: "BuzzerController \<Rightarrow> world \<Rightarrow> BuzzerController \<times> world" where
  "alarm_on b w = (b\<lparr>buzzer_state := 1, is_alarming := True\<rparr>, print_line AlarmOnMsg w)"

definition alarm_off :: "BuzzerController \<Rightarrow> world \<Rightarrow> BuzzerController \<times> world" where
  "alarm_off b w = (b\<lparr>buzzer_state := 0, is_alarming := False\<rparr>, print_line AlarmOffMsg w)"

text \<open>
  A method that can be left by an exception, or held by a call that never returns, gives
  \<open>Inl\<close> of that together with the object and the world as they are at that moment.
\<close>

definition beep ::
  "real \<Rightarrow> BuzzerController \<Rightarrow> world \<Rightarrow> (stop + unit) \<times> BuzzerController \<times> world" where
  "beep duration b w =
     (let (b1, w1) = alarm_on b w
      in case time_sleep duration of
           Inl e \<Rightarrow> (Inl e, b1, w1)
         | Inr _ \<Rightarrow> (let (b2, w2) = alarm_off b1 w1 in (Inr (), b2, w2)))"

text \<open>The body of \<^verbatim>\<open>for i in range(count)\<close>, over the indices still to run.\<close>

fun beep_loop ::
  "int \<Rightarrow> real \<Rightarrow> real \<Rightarrow> int list \<Rightarrow> BuzzerController \<Rightarrow> world
     \<Rightarrow> (stop + unit) \<times> BuzzerController \<times> world" where
  "beep_loop count beep_time pause_time [] b w = (Inr (), b, w)"
| "beep_loop count beep_time pause_time (i # is) b w =
     (let (b1, w1) = alarm_on b w
      in case time_sleep beep_time of
           Inl e \<Rightarrow> (Inl e, b1, w1)
         | Inr _ \<Rightarrow>
             (let (b2, w2) = alarm_off b1 w1
              in if i < count - 1
                 then (case time_sleep pause_time of
                         Inl e \<Rightarrow> (Inl e, b2, w2)
                       | Inr _ \<Rightarrow> beep_loop count beep_time pause_time is b2 w2)
                 else beep_loop count beep_time pause_time is b2 w2))"

definition beep_pattern ::
  "int \<Rightarrow> real \<Rightarrow> real \<Rightarrow> BuzzerController \<Rightarrow> world
     \<Rightarrow> (stop + unit) \<times> BuzzerController \<times> world" where
  "beep_pattern count beep_time pause_time b w =
     beep_loop count beep_time pause_time [0 .. count - 1] b (print_line (BeepingMsg count) w)"

section \<open>The application: \<^verbatim>\<open>main.py\<close>\<close>

subsection \<open>\<^verbatim>\<open>config.py\<close>\<close>

definition GAS_THRESHOLD :: int where "GAS_THRESHOLD = 400"
definition PIN_MQ2_ANALOG :: int where "PIN_MQ2_ANALOG = 0"
definition PIN_MQ2_DIGITAL :: int where "PIN_MQ2_DIGITAL = 16"
definition PIN_LDR :: int where "PIN_LDR = 14"
definition PIN_FLOAT_OVERHEAD :: int where "PIN_FLOAT_OVERHEAD = 12"
definition PIN_FLOAT_UNDERGROUND :: int where "PIN_FLOAT_UNDERGROUND = 13"
definition PIN_RELAY_LIGHT :: int where "PIN_RELAY_LIGHT = 5"
definition PIN_RELAY_FAN :: int where "PIN_RELAY_FAN = 4"
definition PIN_RELAY_MOTOR :: int where "PIN_RELAY_MOTOR = 0"
definition PIN_RELAY_GARDEN :: int where "PIN_RELAY_GARDEN = 2"
definition PIN_BUZZER :: int where "PIN_BUZZER = 15"
definition V_PIN_GAS_LEVEL :: int where "V_PIN_GAS_LEVEL = 10"
definition V_PIN_TANK_STATUS :: int where "V_PIN_TANK_STATUS = 11"
definition V_PIN_LDR_STATUS :: int where "V_PIN_LDR_STATUS = 12"

subsection \<open>The state of \<^verbatim>\<open>HomeAutomationSystem\<close>\<close>

text \<open>The dictionary \<^verbatim>\<open>manual_override\<close> has four fixed keys.\<close>

record override =
  ov_light :: bool
  ov_fan :: bool
  ov_motor :: bool
  ov_garden :: bool

record HomeAutomationSystem =
  connected :: bool
  gas_sensor :: GasSensor
  ldr_sensor :: LDRSensor
  water_sensor :: WaterLevelSensor
  relay :: RelayController
  buzzer :: BuzzerController
  manual_override :: override

subsection \<open>WiFi\<close>

text \<open>
  The wait of \<^verbatim>\<open>connect_wifi\<close>: \<^verbatim>\<open>while not isconnected() and timeout > 0\<close>.  The
  test asks \<^verbatim>\<open>isconnected()\<close> first, so every evaluation of it takes one answer.
  Switching the interface on and starting the association change nothing in the model:
  whether the link comes up is in the answers the world gives.
\<close>

fun wifi_wait :: "nat \<Rightarrow> world \<Rightarrow> world" where
  "wifi_wait 0 w = w\<lparr>wifi_in := stl (wifi_in w)\<rparr>"
| "wifi_wait (Suc timeout) w =
     (let c = shd (wifi_in w); w1 = w\<lparr>wifi_in := stl (wifi_in w)\<rparr>
      in if \<not> c then wifi_wait timeout (print_line WifiDot w1) else w1)"

definition connect_wifi ::
  "bool \<Rightarrow> HomeAutomationSystem \<Rightarrow> world \<Rightarrow> HomeAutomationSystem \<times> world" where
  "connect_wifi mp sys w =
     (if \<not> mp then (sys, w)
      else
        let c = shd (wifi_in w); w1 = w\<lparr>wifi_in := stl (wifi_in w)\<rparr>
        in if \<not> c
           then
             (let w2 = wifi_wait 30 (print_line WifiConnecting w1);
                  c' = shd (wifi_in w2); w3 = w2\<lparr>wifi_in := stl (wifi_in w2)\<rparr>
              in if c' then (sys\<lparr>connected := True\<rparr>, print_line WifiConnected w3)
                 else (sys\<lparr>connected := False\<rparr>, print_line WifiFailed w3))
           else (sys\<lparr>connected := True\<rparr>, print_line WifiAlready w1))"

subsection \<open>Telemetry\<close>

text \<open>
  \<^verbatim>\<open>requests.get(url)\<close> puts the request on the network and takes the next outcome.
  A response is represented by that outcome, which says whether its \<^verbatim>\<open>close()\<close> raises.
  With the outcome \<open>NoReturn\<close> the call holds the program for good.
\<close>

definition requests_get :: "request \<Rightarrow> world \<Rightarrow> (stop + net_outcome) \<times> world" where
  "requests_get url w =
     (let oc = shd (net_in w);
          w1 = w\<lparr>net_in := stl (net_in w), net_out := net_out w @ [url]\<rparr>
      in case oc of
           GetRaises \<Rightarrow> (Inl (Raised OSError), w1)
         | NoReturn \<Rightarrow> (Inl Blocked, w1)
         | _ \<Rightarrow> (Inr oc, w1))"

definition response_close :: "net_outcome \<Rightarrow> stop + unit" where
  "response_close response =
     (if response = CloseRaises then Inl (Raised OSError) else Inr ())"

text \<open>
  The result of the two methods is \<open>Inr\<close> of the returned boolean, or \<open>Inl\<close> of what
  keeps the method from returning.  The \<^verbatim>\<open>try\<close> block is the two nested
  \<open>case\<close>s; \<^verbatim>\<open>except Exception as e\<close> is their \<open>Raised\<close> branches.  A request
  that never returns is not an exception: no handler runs, and the method does not return.
\<close>

definition send_to_blynk ::
  "bool \<Rightarrow> HomeAutomationSystem \<Rightarrow> int \<Rightarrow> int \<Rightarrow> world \<Rightarrow> (stop + bool) \<times> world" where
  "send_to_blynk mp sys virtual_pin val w =
     (if \<not> connected sys \<or> \<not> mp then (Inr False, w)
      else case requests_get (Update virtual_pin val) w of
             (Inl (Raised e), w1) \<Rightarrow> (Inr False, print_line (BlynkUpdateError e) w1)
           | (Inl Blocked, w1) \<Rightarrow> (Inl Blocked, w1)
           | (Inr response, w1) \<Rightarrow>
               (case response_close response of
                  Inl (Raised e) \<Rightarrow> (Inr False, print_line (BlynkUpdateError e) w1)
                | Inl Blocked \<Rightarrow> (Inl Blocked, w1)
                | Inr _ \<Rightarrow> (Inr True, w1)))"

text \<open>
  \<^verbatim>\<open>log_event\<close> never uses its \<^verbatim>\<open>description\<close>; the only caller passes
  \<^verbatim>\<open>f"Level: {analog}"\<close>, represented here by the level.
\<close>

definition log_event ::
  "bool \<Rightarrow> HomeAutomationSystem \<Rightarrow> string \<Rightarrow> int \<Rightarrow> world \<Rightarrow> (stop + bool) \<times> world" where
  "log_event mp sys event_code description w =
     (if \<not> connected sys \<or> \<not> mp then (Inr False, w)
      else case requests_get (LogEvent event_code) w of
             (Inl (Raised e), w1) \<Rightarrow> (Inr False, print_line (BlynkEventError e) w1)
           | (Inl Blocked, w1) \<Rightarrow> (Inl Blocked, w1)
           | (Inr response, w1) \<Rightarrow>
               (case response_close response of
                  Inl (Raised e) \<Rightarrow> (Inr False, print_line (BlynkEventError e) w1)
                | Inl Blocked \<Rightarrow> (Inl Blocked, w1)
                | Inr _ \<Rightarrow> (Inr True, w1)))"

subsection \<open>The three handlers\<close>

definition handle_gas_detection ::
  "bool \<Rightarrow> HomeAutomationSystem \<Rightarrow> world
     \<Rightarrow> (stop + gas_status) \<times> HomeAutomationSystem \<times> world" where
  "handle_gas_detection mp sys w =
     (let (status, g, w1) = GasSensor_get_status mp (gas_sensor sys) w;
          sys1 = sys\<lparr>gas_sensor := g\<rparr>
      in if gs_detected status
         then
           (let w2 = (if \<not> is_alarming (buzzer sys1)
                      then print_line (GasLeakBanner (gs_analog status)
                                         (threshold (gas_sensor sys1))) w1
                      else w1);
                (b, w3) = alarm_on (buzzer sys1) w2;
                sys2 = sys1\<lparr>buzzer := b\<rparr>
            in if connected sys2
               then
                 (case send_to_blynk mp sys2 V_PIN_GAS_LEVEL (gs_analog status) w3 of
                    (Inl e, w4) \<Rightarrow> (Inl e, sys2, w4)
                  | (Inr _, w4) \<Rightarrow>
                      (case log_event mp sys2 ''gas_alert'' (gs_analog status) w4 of
                         (Inl e, w5) \<Rightarrow> (Inl e, sys2, w5)
                       | (Inr _, w5) \<Rightarrow> (Inr status, sys2, w5)))
               else (Inr status, sys2, w3))
         else
           (if is_alarming (buzzer sys1)
            then
              (let (b, w3) = alarm_off (buzzer sys1) (print_line GasNormalMsg w1)
               in (Inr status, sys1\<lparr>buzzer := b\<rparr>, w3))
            else (Inr status, sys1, w1)))"

definition handle_garden_light ::
  "bool \<Rightarrow> HomeAutomationSystem \<Rightarrow> world \<Rightarrow> ldr_status \<times> HomeAutomationSystem \<times> world" where
  "handle_garden_light mp sys w =
     (let (status, l, w1) = LDRSensor_get_status mp (ldr_sensor sys) w;
          sys1 = sys\<lparr>ldr_sensor := l\<rparr>
      in if \<not> ov_garden (manual_override sys1)
         then
           (let (r, w2) = (if ls_is_dark status
                           then control_garden_light True (relay sys1) w1
                           else control_garden_light False (relay sys1) w1)
            in (status, sys1\<lparr>relay := r\<rparr>, w2))
         else (status, sys1, w1))"

definition handle_water_tank ::
  "bool \<Rightarrow> HomeAutomationSystem \<Rightarrow> world \<Rightarrow> tank_status \<times> HomeAutomationSystem \<times> world" where
  "handle_water_tank mp sys w =
     (let (status, s, w1) = get_tank_status mp (water_sensor sys) w;
          sys1 = sys\<lparr>water_sensor := s\<rparr>
      in if \<not> ov_motor (manual_override sys1)
         then
           (let (r, w2) = (if ts_can_run_motor status
                           then control_motor True (relay sys1) w1
                           else control_motor False (relay sys1) w1)
            in (status, sys1\<lparr>relay := r\<rparr>, w2))
         else (status, sys1, w1))"

subsection \<open>Status panel, loop and shutdown\<close>

definition print_system_status ::
  "bool \<Rightarrow> HomeAutomationSystem \<Rightarrow> world \<Rightarrow> HomeAutomationSystem \<times> world" where
  "print_system_status mp sys w =
     (let (gas, g, w1) = GasSensor_get_status mp (gas_sensor sys) w;
          (ldr, l, w2) = LDRSensor_get_status mp (ldr_sensor sys) w1;
          (tank, s, w3) = get_tank_status mp (water_sensor sys) w2;
          relays = RelayController_get_status (relay sys)
      in (sys\<lparr>gas_sensor := g, ldr_sensor := l, water_sensor := s\<rparr>,
          print_line (StatusPanel gas ldr tank relays (connected sys)) w3))"

text \<open>
  The periodic report of \<^verbatim>\<open>run\<close> (the body of
  \<^verbatim>\<open>if self.connected and loop_count % 5 == 0\<close>): three fresh reads, three pushes.
\<close>

definition blynk_report ::
  "bool \<Rightarrow> HomeAutomationSystem \<Rightarrow> world \<Rightarrow> (stop + unit) \<times> HomeAutomationSystem \<times> world" where
  "blynk_report mp sys w =
     (let (gas_level, g, w1) = get_gas_level mp (gas_sensor sys) w;
          (full, s, w2) = is_overhead_full mp (water_sensor sys) w1;
          tank_full = (if full then 1 else 0);
          (dark, l, w3) = is_dark mp (ldr_sensor sys) w2;
          light_status = (if dark then 0 else 1);
          sys1 = sys\<lparr>gas_sensor := g, water_sensor := s, ldr_sensor := l\<rparr>
      in case send_to_blynk mp sys1 V_PIN_GAS_LEVEL gas_level w3 of
           (Inl e, w4) \<Rightarrow> (Inl e, sys1, w4)
         | (Inr _, w4) \<Rightarrow>
             (case send_to_blynk mp sys1 V_PIN_TANK_STATUS tank_full w4 of
                (Inl e, w5) \<Rightarrow> (Inl e, sys1, w5)
              | (Inr _, w5) \<Rightarrow>
                  (case send_to_blynk mp sys1 V_PIN_LDR_STATUS light_status w5 of
                     (Inl e, w6) \<Rightarrow> (Inl e, sys1, w6)
                   | (Inr _, w6) \<Rightarrow> (Inr (), sys1, w6))))"

text \<open>
  One pass through the body of \<^verbatim>\<open>while True\<close>, with \<open>loop_count\<close> already
  incremented.  The closing \<^verbatim>\<open>time.sleep(1)\<close> has no effect in the model.
\<close>

definition tick ::
  "bool \<Rightarrow> int \<Rightarrow> HomeAutomationSystem \<Rightarrow> world
     \<Rightarrow> (stop + unit) \<times> HomeAutomationSystem \<times> world" where
  "tick mp loop_count sys w =
     (case handle_gas_detection mp sys w of
        (Inl e, sys1, w1) \<Rightarrow> (Inl e, sys1, w1)
      | (Inr _, sys1, w1) \<Rightarrow>
          (let (_, sys2, w2) = handle_garden_light mp sys1 w1;
               (_, sys3, w3) = handle_water_tank mp sys2 w2;
               (sys4, w4) = (if loop_count mod 10 = 0 then print_system_status mp sys3 w3
                             else (sys3, w3))
           in if connected sys4 \<and> loop_count mod 5 = 0 then blynk_report mp sys4 w4
              else (Inr (), sys4, w4)))"

text \<open>
  \<^verbatim>\<open>cleanup\<close>: all relays off, alarm off.  Switching the WiFi interface off at the end
  changes nothing in the model.
\<close>

definition cleanup ::
  "bool \<Rightarrow> HomeAutomationSystem \<Rightarrow> world \<Rightarrow> HomeAutomationSystem \<times> world" where
  "cleanup mp sys w =
     (let (r, w1) = turn_off_all (relay sys)
                      (print_line (Progress ''[1/3] Turning off all devices...'') w);
          (b, w2) = alarm_off (buzzer sys)
                      (print_line (Progress ''[2/3] Silencing alarm...'') w1);
          w3 = print_line (Progress ''[3/3] Disconnecting WiFi...'') w2
      in (sys\<lparr>relay := r, buzzer := b\<rparr>,
          print_line (Progress ''System shutdown complete'') w3))"

text \<open>
  The loop runs until the operator interrupts it.  \<open>run_loop mp n\<close> is \<open>n\<close> passes;
  an exception other than the interrupt leaves the loop, and \<^verbatim>\<open>run\<close>, at once, and a
  pass held by a request that never returns is the last one.
\<close>

fun run_loop ::
  "bool \<Rightarrow> nat \<Rightarrow> int \<Rightarrow> HomeAutomationSystem \<Rightarrow> world
     \<Rightarrow> (stop + unit) \<times> HomeAutomationSystem \<times> world" where
  "run_loop mp 0 loop_count sys w = (Inr (), sys, w)"
| "run_loop mp (Suc n) loop_count sys w =
     (case tick mp (loop_count + 1) sys w of
        (Inl e, sys1, w1) \<Rightarrow> (Inl e, sys1, w1)
      | (Inr _, sys1, w1) \<Rightarrow> run_loop mp n (loop_count + 1) sys1 w1)"

text \<open>
  \<open>run mp n\<close>: the operator's \<^verbatim>\<open>KeyboardInterrupt\<close> arrives in the sleep that ends
  pass \<open>n\<close>, or earlier in the request that holds a pass; it is no
  \<^verbatim>\<open>Exception\<close>, so it passes \<^verbatim>\<open>except Exception\<close> and reaches the handler of
  \<^verbatim>\<open>run\<close>, which runs \<^verbatim>\<open>cleanup\<close>.
\<close>

definition run ::
  "bool \<Rightarrow> nat \<Rightarrow> HomeAutomationSystem \<Rightarrow> world
     \<Rightarrow> (stop + unit) \<times> HomeAutomationSystem \<times> world" where
  "run mp n sys w =
     (case run_loop mp n 0 sys (print_line (Progress ''Starting Main Control Loop'') w) of
        (Inl (Raised e), sys1, w1) \<Rightarrow> (Inl (Raised e), sys1, w1)
      | (_, sys1, w1) \<Rightarrow>
          (let (sys2, w2) = cleanup mp sys1
                              (print_line (Progress ''SYSTEM SHUTDOWN INITIATED'') w1)
           in (Inr (), sys2, w2)))"

text \<open>\<^verbatim>\<open>HomeAutomationSystem.__init__\<close>, its progress texts shortened.\<close>

definition HomeAutomationSystem_init ::
  "bool \<Rightarrow> world \<Rightarrow> (stop + unit) \<times> HomeAutomationSystem \<times> world" where
  "HomeAutomationSystem_init mp w =
     (let w1 = print_line (Progress ''[STEP 1/5] Initializing Sensors...'') w;
          g = GasSensor_init PIN_MQ2_ANALOG PIN_MQ2_DIGITAL GAS_THRESHOLD;
          l = LDRSensor_init PIN_LDR;
          s = WaterLevelSensor_init PIN_FLOAT_OVERHEAD PIN_FLOAT_UNDERGROUND;
          w2 = print_line (Progress ''[STEP 2/5] Initializing Controllers...'') w1;
          (r, w3) = RelayController_init PIN_RELAY_LIGHT PIN_RELAY_FAN PIN_RELAY_MOTOR
                      PIN_RELAY_GARDEN w2;
          b = BuzzerController_init PIN_BUZZER;
          sys = \<lparr>connected = False, gas_sensor = g, ldr_sensor = l, water_sensor = s,
                 relay = r, buzzer = b,
                 manual_override = \<lparr>ov_light = False, ov_fan = False, ov_motor = False,
                                      ov_garden = False\<rparr>\<rparr>;
          w4 = print_line (Progress ''[STEP 3/5] Sensor Warmup...'') w3;
          (g1, w5) = warmup mp (if \<not> mp then 5 else 10) (gas_sensor sys) w4;
          sys1 = sys\<lparr>gas_sensor := g1\<rparr>;
          (sys2, w6) =
            (if mp then connect_wifi mp sys1
                          (print_line (Progress ''[STEP 4/5] WiFi Connection...'') w5)
             else (sys1\<lparr>connected := False\<rparr>,
                   print_line (Progress ''[STEP 4/5] WiFi - Skipped (Simulation Mode)'') w5));
          w7 = print_line (Progress ''[STEP 5/5] System Initialization Complete!'') w6;
          (res, b1, w8) = beep_pattern 2 0.1 0.1 (buzzer sys2) w7;
          sys3 = sys2\<lparr>buzzer := b1\<rparr>
      in case res of
           Inl e \<Rightarrow> (Inl e, sys3, w8)
         | Inr _ \<Rightarrow> (Inr (), sys3, print_line (Progress ''SYSTEM READY'') w8))"

section \<open>Vocabulary of the properties\<close>

text \<open>
  The buzzer's latch agrees with its drive line: \<^verbatim>\<open>is_alarming\<close> is true exactly when
  the line is driven high.
\<close>

definition buzzer_consistent :: "BuzzerController \<Rightarrow> bool" where
  "buzzer_consistent b = (is_alarming b = (buzzer_state b = 1))"

text \<open>
  The public operations of \<^verbatim>\<open>BuzzerController\<close>, to speak of any sequence of calls
  on one object.  A call left by an exception still leaves the object behind.
\<close>

datatype buzzer_op = AlarmOn | AlarmOff | Beep real | BeepPattern int real real

fun buzzer_do :: "buzzer_op \<Rightarrow> BuzzerController \<times> world \<Rightarrow> BuzzerController \<times> world" where
  "buzzer_do AlarmOn (b, w) = alarm_on b w"
| "buzzer_do AlarmOff (b, w) = alarm_off b w"
| "buzzer_do (Beep duration) (b, w) = snd (beep duration b w)"
| "buzzer_do (BeepPattern n beep_time pause_time) (b, w) =
     snd (beep_pattern n beep_time pause_time b w)"

text \<open>
  A world in which every request comes back, served or with an exception.
\<close>

definition all_return :: "world \<Rightarrow> bool" where
  "all_return w = (NoReturn \<notin> sset (net_in w))"

text \<open>
  The assignment \<^verbatim>\<open>manual_override['motor'] = v\<close>.  No code of the repository makes
  it; it belongs to the manual command channel, which writes the flags between two
  passes of the loop.
\<close>

definition set_motor_override :: "bool \<Rightarrow> HomeAutomationSystem \<Rightarrow> HomeAutomationSystem" where
  "set_motor_override v sys = sys\<lparr>manual_override := (manual_override sys)\<lparr>ov_motor := v\<rparr>\<rparr>"

subsection \<open>Concrete runs\<close>

text \<open>
  A leak on the board: WiFi is up, every request is served, and the ADC shows 450
  (threshold 400) at every read.  The system boots and makes two passes of the loop.
\<close>

definition leak_world :: world where
  "leak_world = \<lparr>adc_in = sconst 450, mq2_in = sconst 1, ldr_in = sconst 1,
     overhead_in = sconst 0, underground_in = sconst 1, wifi_in = sconst True,
     net_in = sconst Served, net_out = [], console = []\<rparr>"

definition leak_boot :: "(stop + unit) \<times> HomeAutomationSystem \<times> world" where
  "leak_boot = HomeAutomationSystem_init True leak_world"

definition leak_tick1 :: "(stop + unit) \<times> HomeAutomationSystem \<times> world" where
  "leak_tick1 = tick True 1 (fst (snd leak_boot)) (snd (snd leak_boot))"

definition leak_tick2 :: "(stop + unit) \<times> HomeAutomationSystem \<times> world" where
  "leak_tick2 = tick True 2 (fst (snd leak_tick1)) (snd (snd leak_tick1))"

text \<open>
  Readings that change between two reads, in simulation: the draws for the gas level
  are 250, then 450; the draws for the overhead switch are 1 (full), then 0.
\<close>

definition jitter_world :: world where
  "jitter_world = \<lparr>adc_in = 250 ## 450 ## sconst 300, mq2_in = sconst 0, ldr_in = sconst 1,
     overhead_in = 1 ## 0 ## sconst 0, underground_in = sconst 1, wifi_in = sconst False,
     net_in = sconst Served, net_out = [], console = []\<rparr>"

text \<open>
  A tank that fills, on the board: the overhead switch reads 0 at the two reads of the
  first pass and 1 from then on; the underground tank always has water.  After the first
  pass the command channel sets the motor override.
\<close>

definition fill_world :: world where
  "fill_world = \<lparr>adc_in = sconst 250, mq2_in = sconst 0, ldr_in = sconst 1,
     overhead_in = 0 ## 0 ## sconst 1, underground_in = sconst 1, wifi_in = sconst True,
     net_in = sconst Served, net_out = [], console = []\<rparr>"

definition fill_boot :: "(stop + unit) \<times> HomeAutomationSystem \<times> world" where
  "fill_boot = HomeAutomationSystem_init True fill_world"

definition fill_tick1 :: "(stop + unit) \<times> HomeAutomationSystem \<times> world" where
  "fill_tick1 = tick True 1 (fst (snd fill_boot)) (snd (snd fill_boot))"

definition forced_sys :: HomeAutomationSystem where
  "forced_sys = set_motor_override True (fst (snd fill_tick1))"

definition forced_world :: world where
  "forced_world = snd (snd fill_tick1)"

text \<open>
  Requests that never return.  In \<open>stall_world\<close> the leak run has booted and no
  request comes back.  In \<open>held_world\<close> the filling-tank run has made its first pass
  (motor on, no override), the tank is full, a leak starts and no request comes back.
\<close>

definition stall_world :: world where
  "stall_world = (snd (snd leak_boot))\<lparr>net_in := sconst NoReturn\<rparr>"

definition held_world :: world where
  "held_world = (snd (snd fill_tick1))\<lparr>adc_in := sconst 450, net_in := sconst NoReturn\<rparr>"

text \<open>
  Requests that fail but come back: after the boot of the leak run the first
  \<^verbatim>\<open>requests.get\<close> raises, and every later response fails to close.
\<close>

definition faulty_world :: world where
  "faulty_world = (snd (snd leak_boot))\<lparr>net_in := GetRaises ## sconst CloseRaises\<rparr>"

section \<open>Facts about the parts\<close>

lemmas config_defs = GAS_THRESHOLD_def PIN_MQ2_ANALOG_def PIN_MQ2_DIGITAL_def PIN_LDR_def
  PIN_FLOAT_OVERHEAD_def PIN_FLOAT_UNDERGROUND_def PIN_RELAY_LIGHT_def PIN_RELAY_FAN_def
  PIN_RELAY_MOTOR_def PIN_RELAY_GARDEN_def PIN_BUZZER_def V_PIN_GAS_LEVEL_def
  V_PIN_TANK_STATUS_def V_PIN_LDR_STATUS_def

lemmas sensor_defs = read_analog_def read_digital_def is_gas_detected_def get_gas_level_def
  GasSensor_get_status_def is_dark_def LDRSensor_read_def LDRSensor_get_status_def
  is_overhead_full_def is_underground_empty_def can_run_motor_def get_tank_status_def

lemmas relay_defs = turn_off_all_def control_light_def control_fan_def control_motor_def
  control_garden_light_def RelayController_get_status_def

lemmas init_defs = HomeAutomationSystem_init_def GasSensor_init_def LDRSensor_init_def
  WaterLevelSensor_init_def RelayController_init_def BuzzerController_init_def warmup_def
  connect_wifi_def beep_pattern_def time_sleep_def

lemmas main_defs = handle_gas_detection_def handle_garden_light_def handle_water_tank_def
  print_system_status_def blynk_report_def tick_def send_to_blynk_def log_event_def
  requests_get_def response_close_def cleanup_def

text \<open>Everything a concrete run needs to be computed by rewriting.\<close>

lemmas eval_defs = init_defs config_defs sensor_defs relay_defs main_defs alarm_on_def
  alarm_off_def print_line_def Let_def upto.simps

subsection \<open>Printing and the network\<close>

lemma print_line_fields [simp]:
  "adc_in (print_line l w) = adc_in w"
  "mq2_in (print_line l w) = mq2_in w"
  "ldr_in (print_line l w) = ldr_in w"
  "overhead_in (print_line l w) = overhead_in w"
  "underground_in (print_line l w) = underground_in w"
  "wifi_in (print_line l w) = wifi_in w"
  "net_in (print_line l w) = net_in w"
  "net_out (print_line l w) = net_out w"
  "console (print_line l w) = console w @ [l]"
  by (simp_all add: print_line_def)

text \<open>
  The two telemetry methods are held exactly when they pass their guard and the request
  never returns; otherwise they return a boolean, true exactly when the request is served.
\<close>

lemma send_to_blynk_returns:
  "fst (send_to_blynk mp sys p v w)
     = (if connected sys \<and> mp \<and> shd (net_in w) = NoReturn then Inl Blocked
        else Inr (connected sys \<and> mp \<and> shd (net_in w) = Served))"
  by (cases "shd (net_in w)")
     (simp_all add: send_to_blynk_def requests_get_def response_close_def Let_def)

lemma log_event_returns:
  "fst (log_event mp sys c d w)
     = (if connected sys \<and> mp \<and> shd (net_in w) = NoReturn then Inl Blocked
        else Inr (connected sys \<and> mp \<and> shd (net_in w) = Served))"
  by (cases "shd (net_in w)")
     (simp_all add: log_event_def requests_get_def response_close_def Let_def)

lemma send_to_blynk_lines:
  "adc_in (snd (send_to_blynk mp sys p v w)) = adc_in w"
  "ldr_in (snd (send_to_blynk mp sys p v w)) = ldr_in w"
  "overhead_in (snd (send_to_blynk mp sys p v w)) = overhead_in w"
  "underground_in (snd (send_to_blynk mp sys p v w)) = underground_in w"
  by (cases "shd (net_in w)";
      simp add: send_to_blynk_def requests_get_def response_close_def Let_def)+

lemma log_event_lines:
  "adc_in (snd (log_event mp sys c d w)) = adc_in w"
  "ldr_in (snd (log_event mp sys c d w)) = ldr_in w"
  "overhead_in (snd (log_event mp sys c d w)) = overhead_in w"
  "underground_in (snd (log_event mp sys c d w)) = underground_in w"
  by (cases "shd (net_in w)";
      simp add: log_event_def requests_get_def response_close_def Let_def)+

text \<open>A call puts its request on the network exactly when it passes the guard.\<close>

lemma send_to_blynk_net_out:
  "net_out (snd (send_to_blynk mp sys p v w))
     = net_out w @ (if connected sys \<and> mp then [Update p v] else [])"
  by (cases "shd (net_in w)")
     (simp_all add: send_to_blynk_def requests_get_def response_close_def Let_def)

lemma log_event_net_out:
  "net_out (snd (log_event mp sys c d w))
     = net_out w @ (if connected sys \<and> mp then [LogEvent c] else [])"
  by (cases "shd (net_in w)")
     (simp_all add: log_event_def requests_get_def response_close_def Let_def)

lemma send_to_blynk_net_in:
  "net_in (snd (send_to_blynk mp sys p v w))
     = (if connected sys \<and> mp then stl (net_in w) else net_in w)"
  by (cases "shd (net_in w)")
     (simp_all add: send_to_blynk_def requests_get_def response_close_def Let_def)

lemma log_event_net_in:
  "net_in (snd (log_event mp sys c d w))
     = (if connected sys \<and> mp then stl (net_in w) else net_in w)"
  by (cases "shd (net_in w)")
     (simp_all add: log_event_def requests_get_def response_close_def Let_def)

text \<open>Where every request comes back, the next one does, and so do those after it.\<close>

lemma all_return_shd: "all_return w \<Longrightarrow> shd (net_in w) \<noteq> NoReturn"
  unfolding all_return_def using shd_sset [of "net_in w"] by auto

lemma all_return_stl:
  "all_return w \<Longrightarrow> net_in w' = stl (net_in w) \<Longrightarrow> all_return w'"
  unfolding all_return_def using stl_sset [of NoReturn "net_in w"] by auto

lemma all_return_same:
  "all_return w \<Longrightarrow> net_in w' = net_in w \<Longrightarrow> all_return w'"
  by (simp add: all_return_def)

lemma send_to_blynk_all_return:
  assumes "all_return w"
  shows "fst (send_to_blynk mp sys p v w) = Inr (connected sys \<and> mp \<and> shd (net_in w) = Served)"
    and "all_return (snd (send_to_blynk mp sys p v w))"
proof -
  from assms show "fst (send_to_blynk mp sys p v w)
      = Inr (connected sys \<and> mp \<and> shd (net_in w) = Served)"
    by (simp add: send_to_blynk_returns all_return_shd)
  from assms show "all_return (snd (send_to_blynk mp sys p v w))"
    by (auto simp add: all_return_def send_to_blynk_net_in dest: stl_sset)
qed

lemma log_event_all_return:
  assumes "all_return w"
  shows "fst (log_event mp sys c d w) = Inr (connected sys \<and> mp \<and> shd (net_in w) = Served)"
    and "all_return (snd (log_event mp sys c d w))"
proof -
  from assms show "fst (log_event mp sys c d w)
      = Inr (connected sys \<and> mp \<and> shd (net_in w) = Served)"
    by (simp add: log_event_returns all_return_shd)
  from assms show "all_return (snd (log_event mp sys c d w))"
    by (auto simp add: all_return_def log_event_net_in dest: stl_sset)
qed

subsection \<open>Sensors\<close>

lemma gas_status_fields:
  "gs_detected (fst (GasSensor_get_status mp g w)) = (shd (stl (adc_in w)) > threshold g)"
  "gs_analog (fst (GasSensor_get_status mp g w)) = shd (adc_in w)"
  "threshold (fst (snd (GasSensor_get_status mp g w))) = threshold g"
  by (simp_all add: sensor_defs Let_def split_beta)

lemma gas_status_lines:
  "ldr_in (snd (snd (GasSensor_get_status mp g w))) = ldr_in w"
  "overhead_in (snd (snd (GasSensor_get_status mp g w))) = overhead_in w"
  "underground_in (snd (snd (GasSensor_get_status mp g w))) = underground_in w"
  "net_in (snd (snd (GasSensor_get_status mp g w))) = net_in w"
  "net_out (snd (snd (GasSensor_get_status mp g w))) = net_out w"
  "console (snd (snd (GasSensor_get_status mp g w))) = console w"
  by (simp_all add: sensor_defs Let_def split_beta)

lemma ldr_status_dark:
  "ls_is_dark (fst (LDRSensor_get_status mp l w)) = (shd (ldr_in w) = 0)"
  by (simp add: sensor_defs Let_def split_beta)

lemma ldr_status_lines:
  "overhead_in (snd (snd (LDRSensor_get_status mp l w))) = overhead_in w"
  "underground_in (snd (snd (LDRSensor_get_status mp l w))) = underground_in w"
  "net_in (snd (snd (LDRSensor_get_status mp l w))) = net_in w"
  by (simp_all add: sensor_defs Let_def split_beta)

lemma tank_status_fields:
  "ts_can_run_motor (fst (get_tank_status mp s w))
     = (shd (stl (overhead_in w)) \<noteq> 1 \<and> shd (stl (underground_in w)) \<noteq> 0)"
  "ts_overhead_full (fst (get_tank_status mp s w)) = (shd (overhead_in w) = 1)"
  "ts_underground_empty (fst (get_tank_status mp s w)) = (shd (underground_in w) = 0)"
  by (simp_all add: sensor_defs Let_def split_beta)

lemma tank_status_lines:
  "net_in (snd (snd (get_tank_status mp s w))) = net_in w"
  by (simp add: sensor_defs Let_def split_beta)

text \<open>
  When a line shows the same value at both reads of a status call, the fields of the
  status agree with each other.
\<close>

lemma gas_status_stable:
  "shd (stl (adc_in w)) = shd (adc_in w) \<Longrightarrow>
   gs_detected (fst (GasSensor_get_status mp g w))
     = (gs_analog (fst (GasSensor_get_status mp g w)) > threshold g)"
  by (simp add: gas_status_fields)

lemma tank_status_stable:
  "shd (stl (overhead_in w)) = shd (overhead_in w) \<Longrightarrow>
   shd (stl (underground_in w)) = shd (underground_in w) \<Longrightarrow>
   ts_can_run_motor (fst (get_tank_status mp s w))
     = (\<not> ts_overhead_full (fst (get_tank_status mp s w))
        \<and> \<not> ts_underground_empty (fst (get_tank_status mp s w)))"
  by (simp add: tank_status_fields)

subsection \<open>The buzzer\<close>

lemma alarm_lines:
  "ldr_in (snd (alarm_on b w)) = ldr_in w"
  "overhead_in (snd (alarm_on b w)) = overhead_in w"
  "underground_in (snd (alarm_on b w)) = underground_in w"
  "net_in (snd (alarm_on b w)) = net_in w"
  "net_out (snd (alarm_on b w)) = net_out w"
  "ldr_in (snd (alarm_off b w)) = ldr_in w"
  "overhead_in (snd (alarm_off b w)) = overhead_in w"
  "underground_in (snd (alarm_off b w)) = underground_in w"
  "net_in (snd (alarm_off b w)) = net_in w"
  "net_out (snd (alarm_off b w)) = net_out w"
  by (simp_all add: alarm_on_def alarm_off_def)

lemma alarm_on_consistent: "buzzer_consistent (fst (alarm_on b w))"
  by (simp add: alarm_on_def buzzer_consistent_def)

lemma alarm_off_consistent: "buzzer_consistent (fst (alarm_off b w))"
  by (simp add: alarm_off_def buzzer_consistent_def)

lemma beep_consistent: "buzzer_consistent (fst (snd (beep d b w)))"
  by (simp add: beep_def alarm_on_def alarm_off_def buzzer_consistent_def
        split: sum.splits prod.splits)

text \<open>
  The loop of \<^verbatim>\<open>beep_pattern\<close> may run no pass at all (\<^verbatim>\<open>count\<close> at most 0), so
  it keeps the agreement rather than establishing it.
\<close>

lemma beep_loop_consistent:
  "buzzer_consistent b \<Longrightarrow> buzzer_consistent (fst (snd (beep_loop n bt pt is b w)))"
  by (induction "is" arbitrary: b w)
     (simp_all add: alarm_on_def alarm_off_def buzzer_consistent_def
        split: sum.splits prod.splits)

lemma buzzer_do_consistent:
  assumes "buzzer_consistent (fst s)"
  shows "buzzer_consistent (fst (buzzer_do op s))"
proof (cases s)
  case (Pair b w)
  with assms have b: "buzzer_consistent b" by simp
  show ?thesis
  proof (cases op)
    case AlarmOn
    with Pair show ?thesis by (simp add: alarm_on_consistent)
  next
    case AlarmOff
    with Pair show ?thesis by (simp add: alarm_off_consistent)
  next
    case (Beep d)
    with Pair show ?thesis by (simp add: beep_consistent)
  next
    case (BeepPattern n bt pt)
    with Pair b show ?thesis by (simp add: beep_pattern_def beep_loop_consistent)
  qed
qed

lemma buzzer_ops_consistent:
  "buzzer_consistent (fst s) \<Longrightarrow>
   buzzer_consistent (fst (foldl (\<lambda>s op. buzzer_do op s) s ops))"
  by (induction ops arbitrary: s) (simp_all add: buzzer_do_consistent)

text \<open>Steps that make no request leave the outcomes of the requests to come as they are.\<close>

lemma all_return_steps [simp]:
  "all_return (print_line l w) = all_return w"
  "all_return (snd (alarm_on b w)) = all_return w"
  "all_return (snd (alarm_off b w)) = all_return w"
  "all_return (snd (control_garden_light s r w)) = all_return w"
  "all_return (snd (control_motor s r w)) = all_return w"
  "all_return (snd (snd (get_gas_level mp g w))) = all_return w"
  "all_return (snd (snd (is_overhead_full mp ws w))) = all_return w"
  "all_return (snd (snd (is_dark mp ls w))) = all_return w"
  "all_return (snd (snd (GasSensor_get_status mp g w))) = all_return w"
  "all_return (snd (snd (LDRSensor_get_status mp ls w))) = all_return w"
  "all_return (snd (snd (get_tank_status mp ws w))) = all_return w"
  by (simp_all add: all_return_def alarm_lines gas_status_lines ldr_status_lines
        tank_status_lines control_garden_light_def control_motor_def get_gas_level_def
        read_analog_def is_overhead_full_def is_dark_def Let_def)

subsection \<open>The handlers\<close>

text \<open>
  The gas handler is held exactly when it raises the alarm with the link up on the board
  and one of its two requests never returns; it never raises.
\<close>

lemma handle_gas_returns:
  "fst (handle_gas_detection mp sys w)
     = (if shd (stl (adc_in w)) > threshold (gas_sensor sys) \<and> connected sys \<and> mp
           \<and> (shd (net_in w) = NoReturn \<or> shd (stl (net_in w)) = NoReturn)
        then Inl Blocked
        else Inr (fst (GasSensor_get_status mp (gas_sensor sys) w)))"
  by (simp add: handle_gas_detection_def Let_def split_beta send_to_blynk_returns
        log_event_returns send_to_blynk_net_in gas_status_fields gas_status_lines alarm_lines)

text \<open>
  What a pass does to the buzzer depends on the second analog read of the pass (the one
  \<^verbatim>\<open>is_gas_detected\<close> makes inside \<^verbatim>\<open>get_status\<close>) and on the latch, on nothing else.
\<close>

lemma handle_gas_buzzer:
  "buzzer (fst (snd (handle_gas_detection mp sys w)))
     = (if shd (stl (adc_in w)) > threshold (gas_sensor sys)
        then (buzzer sys)\<lparr>buzzer_state := 1, is_alarming := True\<rparr>
        else if is_alarming (buzzer sys)
             then (buzzer sys)\<lparr>buzzer_state := 0, is_alarming := False\<rparr>
             else buzzer sys)"
  by (simp add: handle_gas_detection_def Let_def split_beta send_to_blynk_returns
        log_event_returns gas_status_fields alarm_on_def alarm_off_def)

lemma handle_gas_frame:
  "relay (fst (snd (handle_gas_detection mp sys w))) = relay sys"
  "manual_override (fst (snd (handle_gas_detection mp sys w))) = manual_override sys"
  "connected (fst (snd (handle_gas_detection mp sys w))) = connected sys"
  "ldr_sensor (fst (snd (handle_gas_detection mp sys w))) = ldr_sensor sys"
  "water_sensor (fst (snd (handle_gas_detection mp sys w))) = water_sensor sys"
  by (simp_all add: handle_gas_detection_def Let_def split_beta send_to_blynk_returns
        log_event_returns alarm_on_def alarm_off_def)

lemma handle_gas_lines:
  "ldr_in (snd (snd (handle_gas_detection mp sys w))) = ldr_in w"
  "overhead_in (snd (snd (handle_gas_detection mp sys w))) = overhead_in w"
  "underground_in (snd (snd (handle_gas_detection mp sys w))) = underground_in w"
  by (simp_all add: handle_gas_detection_def Let_def split_beta send_to_blynk_returns
        log_event_returns send_to_blynk_lines log_event_lines gas_status_lines alarm_lines)

text \<open>
  The requests of the gas handler, for every state: the latch does not occur on the
  right-hand side.  The level pushed is the first analog read of the pass.
\<close>

lemma handle_gas_net_out:
  "net_out (snd (snd (handle_gas_detection mp sys w)))
     = net_out w @
       (if shd (stl (adc_in w)) > threshold (gas_sensor sys) \<and> connected sys \<and> mp
        then (if shd (net_in w) = NoReturn then [Update V_PIN_GAS_LEVEL (shd (adc_in w))]
              else [Update V_PIN_GAS_LEVEL (shd (adc_in w)), LogEvent ''gas_alert''])
        else [])"
  by (simp add: handle_gas_detection_def Let_def split_beta send_to_blynk_returns
        log_event_returns send_to_blynk_net_out log_event_net_out gas_status_fields
        gas_status_lines alarm_lines)

text \<open>The console of the gas handler when the link is down.\<close>

lemma handle_gas_console_offline:
  "console (snd (snd (handle_gas_detection mp (sys\<lparr>connected := False\<rparr>) w)))
     = console w @
       (if shd (stl (adc_in w)) > threshold (gas_sensor sys)
        then (if is_alarming (buzzer sys) then []
              else [GasLeakBanner (shd (adc_in w)) (threshold (gas_sensor sys))]) @ [AlarmOnMsg]
        else if is_alarming (buzzer sys) then [GasNormalMsg, AlarmOffMsg] else [])"
  by (simp add: handle_gas_detection_def Let_def split_beta gas_status_fields
        gas_status_lines alarm_on_def alarm_off_def)

lemma handle_gas_all_return:
  assumes "all_return w"
  shows "fst (handle_gas_detection mp sys w)
           = Inr (fst (GasSensor_get_status mp (gas_sensor sys) w))"
    and "all_return (snd (snd (handle_gas_detection mp sys w)))"
  using assms
  by (simp_all add: handle_gas_detection_def Let_def split_beta send_to_blynk_all_return
        log_event_all_return)

lemma handle_garden_relay:
  "relay (fst (snd (handle_garden_light mp sys w)))
     = (if ov_garden (manual_override sys) then relay sys
        else (relay sys)\<lparr>garden_state := (if shd (ldr_in w) = 0 then 0 else 1)\<rparr>)"
  by (simp add: handle_garden_light_def Let_def split_beta ldr_status_dark
        control_garden_light_def)

lemma handle_garden_frame:
  "buzzer (fst (snd (handle_garden_light mp sys w))) = buzzer sys"
  "manual_override (fst (snd (handle_garden_light mp sys w))) = manual_override sys"
  "connected (fst (snd (handle_garden_light mp sys w))) = connected sys"
  by (simp_all add: handle_garden_light_def Let_def split_beta)

lemma handle_garden_lines:
  "overhead_in (snd (snd (handle_garden_light mp sys w))) = overhead_in w"
  "underground_in (snd (snd (handle_garden_light mp sys w))) = underground_in w"
  by (simp_all add: handle_garden_light_def Let_def split_beta ldr_status_lines
        control_garden_light_def)

lemma handle_garden_all_return [simp]:
  "all_return (snd (snd (handle_garden_light mp sys w))) = all_return w"
  by (simp add: handle_garden_light_def Let_def split_beta)

lemma handle_water_relay:
  "relay (fst (snd (handle_water_tank mp sys w)))
     = (if ov_motor (manual_override sys) then relay sys
        else (relay sys)\<lparr>motor_state :=
               (if shd (stl (overhead_in w)) \<noteq> 1 \<and> shd (stl (underground_in w)) \<noteq> 0
                then 0 else 1)\<rparr>)"
  by (simp add: handle_water_tank_def Let_def split_beta tank_status_fields control_motor_def)

lemma handle_water_frame:
  "buzzer (fst (snd (handle_water_tank mp sys w))) = buzzer sys"
  "manual_override (fst (snd (handle_water_tank mp sys w))) = manual_override sys"
  "connected (fst (snd (handle_water_tank mp sys w))) = connected sys"
  by (simp_all add: handle_water_tank_def Let_def split_beta)

lemma handle_water_all_return [simp]:
  "all_return (snd (snd (handle_water_tank mp sys w))) = all_return w"
  by (simp add: handle_water_tank_def Let_def split_beta)

subsection \<open>One pass of the loop\<close>

lemma print_status_frame:
  "relay (fst (print_system_status mp sys w)) = relay sys"
  "buzzer (fst (print_system_status mp sys w)) = buzzer sys"
  "manual_override (fst (print_system_status mp sys w)) = manual_override sys"
  "connected (fst (print_system_status mp sys w)) = connected sys"
  by (simp_all add: print_system_status_def Let_def split_beta)

lemma print_status_all_return [simp]:
  "all_return (snd (print_system_status mp sys w)) = all_return w"
  by (simp add: print_system_status_def Let_def split_beta)

lemma blynk_report_no_raise: "fst (blynk_report mp sys w) \<noteq> Inl (Raised e)"
  by (simp add: blynk_report_def Let_def split_beta send_to_blynk_returns)

lemma blynk_report_frame:
  "relay (fst (snd (blynk_report mp sys w))) = relay sys"
  "buzzer (fst (snd (blynk_report mp sys w))) = buzzer sys"
  "manual_override (fst (snd (blynk_report mp sys w))) = manual_override sys"
  "connected (fst (snd (blynk_report mp sys w))) = connected sys"
  by (simp_all add: blynk_report_def Let_def split_beta send_to_blynk_returns)

lemma blynk_report_all_return:
  assumes "all_return w"
  shows "fst (blynk_report mp sys w) = Inr ()"
    and "all_return (snd (snd (blynk_report mp sys w)))"
  using assms
  by (simp_all add: blynk_report_def Let_def split_beta send_to_blynk_all_return)

lemma tick_no_raise: "fst (tick mp lc sys w) \<noteq> Inl (Raised e)"
  by (simp add: tick_def Let_def split_beta handle_gas_returns blynk_report_no_raise)

lemma tick_all_return:
  assumes "all_return w"
  shows "fst (tick mp lc sys w) = Inr ()"
    and "all_return (snd (snd (tick mp lc sys w)))"
  using assms
  by (simp_all add: tick_def Let_def split_beta handle_gas_all_return blynk_report_all_return)

lemma tick_buzzer:
  "buzzer (fst (snd (tick mp lc sys w))) = buzzer (fst (snd (handle_gas_detection mp sys w)))"
  by (simp add: tick_def Let_def split_beta handle_gas_returns blynk_report_frame
        print_status_frame handle_water_frame handle_garden_frame)

text \<open>
  The relays after a pass.  A pass held in the gas handler never reaches the other two
  handlers and leaves the relays as they were.  Otherwise the garden line follows the first
  read of the LDR in the pass, and the motor line follows the second read of each float
  switch, the one \<^verbatim>\<open>can_run_motor\<close> makes inside \<^verbatim>\<open>get_tank_status\<close>.
\<close>

lemma tick_relay:
  "relay (fst (snd (tick mp lc sys w)))
     = (if fst (handle_gas_detection mp sys w) = Inl Blocked then relay sys
        else (relay sys)\<lparr>
         garden_state := (if ov_garden (manual_override sys) then garden_state (relay sys)
                          else if shd (ldr_in w) = 0 then 0 else 1),
         motor_state := (if ov_motor (manual_override sys) then motor_state (relay sys)
                         else if shd (stl (overhead_in w)) \<noteq> 1
                                 \<and> shd (stl (underground_in w)) \<noteq> 0
                              then 0 else 1)\<rparr>)"
proof (cases "fst (handle_gas_detection mp sys w) = Inl Blocked")
  case True
  then show ?thesis by (simp add: tick_def split_beta handle_gas_frame)
next
  case False
  then have "fst (handle_gas_detection mp sys w)
      = Inr (fst (GasSensor_get_status mp (gas_sensor sys) w))"
    by (simp add: handle_gas_returns split: if_splits)
  with False show ?thesis
    by (simp add: tick_def Let_def split_beta blynk_report_frame print_status_frame
          handle_water_relay handle_garden_relay handle_garden_frame handle_gas_frame
          handle_gas_lines handle_garden_lines)
qed

lemma run_loop_no_raise: "fst (run_loop mp n lc sys w) \<noteq> Inl (Raised e)"
proof (induction n arbitrary: lc sys w)
  case 0
  show ?case by simp
next
  case (Suc n)
  have "fst (tick mp (lc + 1) sys w) \<noteq> Inl (Raised e')" for e' by (rule tick_no_raise)
  then show ?case using Suc by (auto simp add: split_beta split: sum.splits)
qed

lemma run_loop_all_return:
  "all_return w \<Longrightarrow> fst (run_loop mp n lc sys w) = Inr ()"
proof (induction n arbitrary: lc sys w)
  case 0
  show ?case by simp
next
  case (Suc n)
  from Suc.prems have "fst (tick mp (lc + 1) sys w) = Inr ()"
    and "all_return (snd (snd (tick mp (lc + 1) sys w)))"
    by (rule tick_all_return)+
  then show ?case using Suc.IH by (simp add: split_beta)
qed

lemma cleanup_state:
  "relay (fst (cleanup mp sys w))
     = \<lparr>light_state = 1, fan_state = 1, motor_state = 1, garden_state = 1\<rparr>"
  "buzzer (fst (cleanup mp sys w)) = \<lparr>buzzer_state = 0, is_alarming = False\<rparr>"
  by (simp_all add: cleanup_def turn_off_all_def alarm_off_def Let_def split_beta)

text \<open>
  However the loop ended, by the interrupt in a sleep or by the interrupt of a request
  that held it, \<^verbatim>\<open>run\<close> finishes with \<^verbatim>\<open>cleanup\<close>.
\<close>

lemma run_state:
  "fst (run mp n sys w) = Inr ()"
  "relay (fst (snd (run mp n sys w)))
     = \<lparr>light_state = 1, fan_state = 1, motor_state = 1, garden_state = 1\<rparr>"
  "buzzer (fst (snd (run mp n sys w))) = \<lparr>buzzer_state = 0, is_alarming = False\<rparr>"
proof -
  define r where "r = run_loop mp n 0 sys (print_line (Progress ''Starting Main Control Loop'') w)"
  have "fst r \<noteq> Inl (Raised e)" for e unfolding r_def by (rule run_loop_no_raise)
  then have ends: "fst r = Inl Blocked \<or> fst r = Inr ()"
    by (cases "fst r") (auto intro: stop.exhaust)
  have unfolded: "run mp n sys w =
      (case r of (Inl (Raised e), sys1, w1) \<Rightarrow> (Inl (Raised e), sys1, w1)
       | (_, sys1, w1) \<Rightarrow>
          (let (sys2, w2) = cleanup mp sys1
                              (print_line (Progress ''SYSTEM SHUTDOWN INITIATED'') w1)
           in (Inr (), sys2, w2)))"
    by (simp add: run_def r_def)
  from ends show "fst (run mp n sys w) = Inr ()"
    unfolding unfolded by (auto simp add: split_beta)
  from ends show "relay (fst (snd (run mp n sys w)))
     = \<lparr>light_state = 1, fan_state = 1, motor_state = 1, garden_state = 1\<rparr>"
    unfolding unfolded by (auto simp add: split_beta cleanup_state)
  from ends show "buzzer (fst (snd (run mp n sys w)))
     = \<lparr>buzzer_state = 0, is_alarming = False\<rparr>"
    unfolding unfolded by (auto simp add: split_beta cleanup_state)
qed

text \<open>The constructor of the application leaves every relay released.\<close>

lemma connect_wifi_frame:
  "relay (fst (connect_wifi mp sys w)) = relay sys"
  "buzzer (fst (connect_wifi mp sys w)) = buzzer sys"
  by (simp_all add: connect_wifi_def Let_def)

lemma init_relays_off:
  "relay (fst (snd (HomeAutomationSystem_init mp w)))
     = \<lparr>light_state = 1, fan_state = 1, motor_state = 1, garden_state = 1\<rparr>"
proof -
  have pick: "\<And>r s f g h k.
      fst (snd (case r of Inl e \<Rightarrow> (f e, s, g e) | Inr x \<Rightarrow> (h x, s, k x))) = s"
    by (simp split: sum.splits)
  show ?thesis
    unfolding HomeAutomationSystem_init_def Let_def split_beta pick
    by (simp add: connect_wifi_frame RelayController_init_def turn_off_all_def)
qed

text \<open>
  In a world where every request comes back, a pass is never held, and the relays after
  it are given by the two rules alone.
\<close>

lemma tick_relay_all_return:
  assumes "all_return w"
  shows "relay (fst (snd (tick mp lc sys w)))
     = (relay sys)\<lparr>
         garden_state := (if ov_garden (manual_override sys) then garden_state (relay sys)
                          else if shd (ldr_in w) = 0 then 0 else 1),
         motor_state := (if ov_motor (manual_override sys) then motor_state (relay sys)
                         else if shd (stl (overhead_in w)) \<noteq> 1
                                 \<and> shd (stl (underground_in w)) \<noteq> 0
                              then 0 else 1)\<rparr>"
proof -
  from assms have "fst (handle_gas_detection mp sys w) \<noteq> Inl Blocked"
    by (simp add: handle_gas_all_return)
  then show ?thesis by (simp add: tick_relay)
qed

lemma run_loop_step:
  assumes "all_return w"
  shows "run_loop mp (Suc n) lc sys w
     = run_loop mp n (lc + 1) (fst (snd (tick mp (lc + 1) sys w)))
         (snd (snd (tick mp (lc + 1) sys w)))"
proof -
  from assms have "fst (tick mp (lc + 1) sys w) = Inr ()" by (rule tick_all_return)
  then show ?thesis by (simp add: split_beta)
qed

section \<open>The claims\<close>

subsection \<open>C1: the gas alarm as an edge-triggered latch\<close>

text \<open>
  Claim C1 says that a gas-detected notification is emitted on the transition from
  not alarming to alarming only, and never again on later passes that are already
  alarming and still above the threshold.  The code guards the console banner with
  \<^verbatim>\<open>if not self.buzzer.is_alarming\<close>, but not the two telemetry calls that follow
  \<^verbatim>\<open>alarm_on()\<close>.  In the leak run (board, WiFi up, 450 against a threshold of 400 at
  every read) the first pass latches the alarm, prints the banner and sends the level and
  the event \<^verbatim>\<open>gas_alert\<close>; the second pass, already alarming, prints no banner and
  sends the level and the event \<^verbatim>\<open>gas_alert\<close> a second time.
\<close>

theorem gas_alert_repeated_while_alarming:
  "is_alarming (buzzer (fst (snd leak_tick1)))
   \<and> net_out (snd (snd leak_tick1)) = [Update 10 450, LogEvent ''gas_alert'']
   \<and> net_out (snd (snd leak_tick2))
       = [Update 10 450, LogEvent ''gas_alert'', Update 10 450, LogEvent ''gas_alert'']
   \<and> console (snd (snd leak_tick1))
       = console (snd (snd leak_boot))
         @ [GasLeakBanner 450 400, AlarmOnMsg, GardenMsg False, MotorMsg True]
   \<and> console (snd (snd leak_tick2))
       = console (snd (snd leak_tick1)) @ [AlarmOnMsg, GardenMsg False, MotorMsg True]"
  by (simp add: leak_tick2_def leak_tick1_def leak_boot_def leak_world_def eval_defs)

subsection \<open>C2: the motor interlock\<close>

text \<open>
  Claim C2 says that in every reachable state the motor is on only if the overhead tank
  is not full and the underground tank is not empty, also under the manual override.
  It fails in the run of the filling tank: the first pass switches the motor on, the
  override flag is set, the tank is full at every later read, and the second pass
  reports \<^verbatim>\<open>overhead_full\<close> and \<^verbatim>\<open>can_run_motor = False\<close> while the motor stays on,
  because \<^verbatim>\<open>handle_water_tank\<close> drives the relay under
  \<^verbatim>\<open>if not self.manual_override['motor']\<close> only.  It fails without any override too
  when a request of the gas handler never returns: the second pass is held before it
  reaches \<^verbatim>\<open>handle_water_tank\<close>, with the motor on and the tank full.
\<close>

theorem motor_on_with_full_tank_under_override:
  "rs_motor (RelayController_get_status (relay forced_sys))
   \<and> ov_motor (manual_override forced_sys)
   \<and> overhead_in forced_world = sconst 1
   \<and> ts_overhead_full (fst (handle_water_tank True forced_sys forced_world))
   \<and> \<not> ts_can_run_motor (fst (handle_water_tank True forced_sys forced_world))
   \<and> rs_motor (RelayController_get_status
        (relay (fst (snd (handle_water_tank True forced_sys forced_world)))))
   \<and> rs_motor (RelayController_get_status
        (relay (fst (snd (tick True 2 forced_sys forced_world)))))
   \<and> \<not> ov_motor (manual_override (fst (snd fill_tick1)))
   \<and> overhead_in held_world = sconst 1
   \<and> fst (tick True 2 (fst (snd fill_tick1)) held_world) = Inl Blocked
   \<and> rs_motor (RelayController_get_status
        (relay (fst (snd (tick True 2 (fst (snd fill_tick1)) held_world)))))"
  by (simp add: forced_sys_def forced_world_def held_world_def set_motor_override_def
        fill_tick1_def fill_boot_def fill_world_def eval_defs)

text \<open>
  Claim C2 as amended: after every pass of the loop that reaches
  \<^verbatim>\<open>handle_water_tank\<close> with the motor override flag false, from any state whatever
  (also one in which the motor was on), the motor is on only if the float switches, at
  the read \<^verbatim>\<open>can_run_motor\<close> makes in that pass, show the overhead tank not full
  (not 1) and the underground tank not empty (not 0).  With the motor override flag true
  the pass leaves the motor relay as it was, and so does a pass that a request of the gas
  handler holds for good.
\<close>

theorem motor_interlock_by_override_flag:
  "(\<not> ov_motor (manual_override sys) \<longrightarrow>
      fst (handle_gas_detection mp sys w) \<noteq> Inl Blocked \<longrightarrow>
      rs_motor (RelayController_get_status (relay (fst (snd (tick mp lc sys w))))) \<longrightarrow>
      shd (stl (overhead_in w)) \<noteq> 1 \<and> shd (stl (underground_in w)) \<noteq> 0)
   \<and> (ov_motor (manual_override sys) \<longrightarrow>
        motor_state (relay (fst (snd (tick mp lc sys w)))) = motor_state (relay sys))
   \<and> (fst (handle_gas_detection mp sys w) = Inl Blocked \<longrightarrow>
        motor_state (relay (fst (snd (tick mp lc sys w)))) = motor_state (relay sys))"
  by (simp add: tick_relay RelayController_get_status_def)

text \<open>
  Witness for C2 as amended, in the run of the filling tank: the first pass after the
  boot has no override, is not held and ends with the motor on, and both tanks were in
  order; the second pass under override leaves the motor line as it was; so does the
  second pass that is held.
\<close>

theorem motor_interlock_by_override_flag_witness:
  "\<not> ov_motor (manual_override (fst (snd fill_boot)))
   \<and> fst (handle_gas_detection True (fst (snd fill_boot)) (snd (snd fill_boot))) \<noteq> Inl Blocked
   \<and> rs_motor (RelayController_get_status
        (relay (fst (snd (tick True 1 (fst (snd fill_boot)) (snd (snd fill_boot)))))))
   \<and> shd (stl (overhead_in (snd (snd fill_boot)))) \<noteq> 1
   \<and> shd (stl (underground_in (snd (snd fill_boot)))) \<noteq> 0
   \<and> ov_motor (manual_override forced_sys)
   \<and> motor_state (relay (fst (snd (tick True 2 forced_sys forced_world))))
       = motor_state (relay forced_sys)
   \<and> fst (handle_gas_detection True (fst (snd fill_tick1)) held_world) = Inl Blocked
   \<and> motor_state (relay (fst (snd (tick True 2 (fst (snd fill_tick1)) held_world))))
       = motor_state (relay (fst (snd fill_tick1)))"
proof -
  have auto_mode: "\<not> ov_motor (manual_override (fst (snd fill_boot)))"
    and free: "fst (handle_gas_detection True (fst (snd fill_boot)) (snd (snd fill_boot)))
                 \<noteq> Inl Blocked"
    and on: "rs_motor (RelayController_get_status
        (relay (fst (snd (tick True 1 (fst (snd fill_boot)) (snd (snd fill_boot)))))))"
    by (simp_all add: fill_boot_def fill_world_def eval_defs)
  have manual_mode: "ov_motor (manual_override forced_sys)"
    by (simp add: forced_sys_def set_motor_override_def)
  have held: "fst (handle_gas_detection True (fst (snd fill_tick1)) held_world) = Inl Blocked"
    by (simp add: held_world_def fill_tick1_def fill_boot_def fill_world_def eval_defs)
  from motor_interlock_by_override_flag
         [of "fst (snd fill_boot)" True "snd (snd fill_boot)" 1]
       motor_interlock_by_override_flag [of forced_sys True forced_world 2]
       motor_interlock_by_override_flag [of "fst (snd fill_tick1)" True held_world 2]
  show ?thesis by (simp add: auto_mode free on manual_mode held)
qed

subsection \<open>C3: the motor rule\<close>



subsection \<open>C4: gas is detected strictly above the threshold\<close>

text \<open>
  Claim C4: \<^verbatim>\<open>is_gas_detected\<close> answers true exactly when the analog reading is
  strictly greater than the threshold, so a reading equal to the threshold is normal;
  the \<^verbatim>\<open>detected\<close> field of the status is that comparison on the read
  \<^verbatim>\<open>is_gas_detected\<close> makes; the alarm latch after \<^verbatim>\<open>handle_gas_detection\<close> is that
  comparison too, and the buzzer it leaves is the same whatever the digital pin shows.
\<close>

theorem gas_detection_strict_analog:
  "fst (is_gas_detected mp g w) = (shd (adc_in w) > threshold g)
   \<and> \<not> fst (is_gas_detected mp g (w\<lparr>adc_in := threshold g ## rest\<rparr>))
   \<and> gs_detected (fst (GasSensor_get_status mp g w)) = (shd (stl (adc_in w)) > threshold g)
   \<and> is_alarming (buzzer (fst (snd (handle_gas_detection mp sys w))))
       = (shd (stl (adc_in w)) > threshold (gas_sensor sys))
   \<and> buzzer (fst (snd (handle_gas_detection mp sys (w\<lparr>mq2_in := pin\<rparr>))))
       = buzzer (fst (snd (handle_gas_detection mp sys w)))"
  by (simp add: handle_gas_buzzer gas_status_fields is_gas_detected_def read_analog_def Let_def)

text \<open>
  An instance of C4, on the booted system of the leak run: a reading of 450 against the
  threshold 400 latches the alarm, and a reading of exactly 400 is not detected.
\<close>

theorem gas_detection_strict_analog_witness:
  "is_alarming (buzzer (fst (snd (handle_gas_detection True (fst (snd leak_boot))
       (snd (snd leak_boot))))))
   \<and> \<not> fst (is_gas_detected True (gas_sensor (fst (snd leak_boot)))
         ((snd (snd leak_boot))\<lparr>adc_in := 400 ## sconst 450\<rparr>))"
proof -
  have thr: "threshold (gas_sensor (fst (snd leak_boot))) = 400"
    and level: "shd (stl (adc_in (snd (snd leak_boot)))) = 450"
    by (simp_all add: leak_boot_def leak_world_def eval_defs)
  from gas_detection_strict_analog [of True "gas_sensor (fst (snd leak_boot))"
      "snd (snd leak_boot)" "sconst 450" "fst (snd leak_boot)"]
  show ?thesis by (simp add: thr level)
qed

subsection \<open>C5: the garden light rule\<close>



subsection \<open>C6: one status, one reading\<close>

text \<open>
  Claim C6 says that the fields of one \<^verbatim>\<open>GasSensor.get_status\<close> come from the same
  reading (\<^verbatim>\<open>detected\<close> is \<^verbatim>\<open>analog > threshold\<close> for the reported \<^verbatim>\<open>analog\<close>) and
  that in one \<^verbatim>\<open>get_tank_status\<close> the field \<^verbatim>\<open>can_run_motor\<close> is
  \<^verbatim>\<open>not overhead_full and not underground_empty\<close> of the same status.  Both methods
  read their lines a second time, inside \<^verbatim>\<open>is_gas_detected\<close> and
  \<^verbatim>\<open>can_run_motor\<close>.  With the readings that change between two reads, in simulation:
  the gas status reports the level 250 against the threshold 400 together with
  \<^verbatim>\<open>detected\<close>, and the tank status reports a full overhead tank together with
  \<^verbatim>\<open>can_run_motor\<close>.
\<close>

theorem status_fields_from_different_reads:
  "gs_analog (fst (GasSensor_get_status False
       (GasSensor_init PIN_MQ2_ANALOG PIN_MQ2_DIGITAL GAS_THRESHOLD) jitter_world)) = 250
   \<and> gs_digital (fst (GasSensor_get_status False
       (GasSensor_init PIN_MQ2_ANALOG PIN_MQ2_DIGITAL GAS_THRESHOLD) jitter_world)) = 0
   \<and> gs_detected (fst (GasSensor_get_status False
       (GasSensor_init PIN_MQ2_ANALOG PIN_MQ2_DIGITAL GAS_THRESHOLD) jitter_world))
   \<and> GAS_THRESHOLD = 400
   \<and> ts_overhead_full (fst (get_tank_status False
       (WaterLevelSensor_init PIN_FLOAT_OVERHEAD PIN_FLOAT_UNDERGROUND) jitter_world))
   \<and> \<not> ts_underground_empty (fst (get_tank_status False
       (WaterLevelSensor_init PIN_FLOAT_OVERHEAD PIN_FLOAT_UNDERGROUND) jitter_world))
   \<and> ts_can_run_motor (fst (get_tank_status False
       (WaterLevelSensor_init PIN_FLOAT_OVERHEAD PIN_FLOAT_UNDERGROUND) jitter_world))"
  by (simp add: jitter_world_def eval_defs)

subsection \<open>C7: shutdown and startup leave everything off\<close>

text \<open>
  Claim C7: from any state, \<^verbatim>\<open>cleanup\<close> leaves the four appliances off and the buzzer
  off with \<^verbatim>\<open>is_alarming\<close> false; so does \<^verbatim>\<open>run\<close> when the operator interrupts it
  after any number of passes; and the constructor of \<^verbatim>\<open>RelayController\<close> leaves the
  relays in the state \<^verbatim>\<open>turn_off_all\<close> gives from any state, with every appliance off.
\<close>

theorem shutdown_all_off:
  "RelayController_get_status (relay (fst (cleanup mp sys w)))
     = \<lparr>rs_light = False, rs_fan = False, rs_motor = False, rs_garden = False\<rparr>
   \<and> buzzer_state (buzzer (fst (cleanup mp sys w))) = 0
   \<and> \<not> is_alarming (buzzer (fst (cleanup mp sys w)))
   \<and> fst (run mp n sys w) = Inr ()
   \<and> RelayController_get_status (relay (fst (snd (run mp n sys w))))
     = \<lparr>rs_light = False, rs_fan = False, rs_motor = False, rs_garden = False\<rparr>
   \<and> buzzer (fst (snd (run mp n sys w))) = \<lparr>buzzer_state = 0, is_alarming = False\<rparr>
   \<and> RelayController_get_status (fst (RelayController_init lp fp mo gp w))
     = \<lparr>rs_light = False, rs_fan = False, rs_motor = False, rs_garden = False\<rparr>
   \<and> fst (RelayController_init lp fp mo gp w) = fst (turn_off_all r w)
   \<and> RelayController_get_status (relay (fst (snd (HomeAutomationSystem_init mp w))))
     = \<lparr>rs_light = False, rs_fan = False, rs_motor = False, rs_garden = False\<rparr>"
  by (simp add: cleanup_state run_state RelayController_get_status_def
        RelayController_init_def turn_off_all_def init_relays_off)

text \<open>
  An instance of C7: after the first pass of the leak run the alarm sounds and the motor
  runs; \<^verbatim>\<open>cleanup\<close> from that state leaves the motor off and the alarm silent.
\<close>

theorem shutdown_all_off_witness:
  "is_alarming (buzzer (fst (snd leak_tick1)))
   \<and> rs_motor (RelayController_get_status (relay (fst (snd leak_tick1))))
   \<and> \<not> rs_motor (RelayController_get_status
          (relay (fst (cleanup True (fst (snd leak_tick1)) (snd (snd leak_tick1))))))
   \<and> \<not> is_alarming (buzzer (fst (cleanup True (fst (snd leak_tick1)) (snd (snd leak_tick1)))))"
proof -
  have before: "is_alarming (buzzer (fst (snd leak_tick1)))"
    "rs_motor (RelayController_get_status (relay (fst (snd leak_tick1))))"
    by (simp_all add: leak_tick1_def leak_boot_def leak_world_def eval_defs)
  from shutdown_all_off [of True "fst (snd leak_tick1)" "snd (snd leak_tick1)"]
  show ?thesis by (simp add: before)
qed

subsection \<open>C8: telemetry and the loop\<close>

text \<open>
  Claim C8 says that telemetry never fails the loop: \<^verbatim>\<open>send_to_blynk\<close> and
  \<^verbatim>\<open>log_event\<close> never let an exception out, and the gas, garden and motor handling of
  every pass runs whatever the connection and the outcome of the telemetry.  The last part
  fails for a request that never returns, since \<^verbatim>\<open>requests.get\<close> is called without a
  timeout.  In the leak run, with no request coming back after the boot, the first pass
  is held in the push of the gas handler: the garden and motor handlers never run, and the
  motor, which the same pass switches on when its requests are served, stays off.
\<close>

theorem blocked_request_holds_pass:
  "fst (tick True 1 (fst (snd leak_boot)) stall_world) = Inl Blocked
   \<and> net_out (snd (snd (tick True 1 (fst (snd leak_boot)) stall_world))) = [Update 10 450]
   \<and> relay (fst (snd (tick True 1 (fst (snd leak_boot)) stall_world)))
       = relay (fst (snd leak_boot))
   \<and> motor_state (relay (fst (snd (tick True 1 (fst (snd leak_boot)) stall_world)))) = 1
   \<and> motor_state (relay (fst (snd leak_tick1))) = 0"
  by (simp add: stall_world_def leak_tick1_def leak_boot_def leak_world_def eval_defs)

text \<open>
  Claim C8 as amended.  \<^verbatim>\<open>send_to_blynk\<close> and \<^verbatim>\<open>log_event\<close> never let an exception
  out: unless the request never returns they return a boolean, which is true exactly when
  the guard passes and the exchange is served, so false on every error; when not connected
  (or off the board) they return false and leave the world as it is, with no request made.
  No pass of the loop, and no number of passes, ends with an exception.  In a world where
  every request comes back, served or with an exception, every pass completes, the loop
  goes on to the next pass, and the relays and the buzzer after the pass are those the
  gas, garden and motor rules give, whatever the connection flag and the outcomes of the
  requests.
\<close>

theorem telemetry_faults_leave_loop_running:
  "fst (send_to_blynk mp sys p v w)
     = (if connected sys \<and> mp \<and> shd (net_in w) = NoReturn then Inl Blocked
        else Inr (connected sys \<and> mp \<and> shd (net_in w) = Served))
   \<and> fst (log_event mp sys c d w)
     = (if connected sys \<and> mp \<and> shd (net_in w) = NoReturn then Inl Blocked
        else Inr (connected sys \<and> mp \<and> shd (net_in w) = Served))
   \<and> send_to_blynk mp (sys\<lparr>connected := False\<rparr>) p v w = (Inr False, w)
   \<and> log_event mp (sys\<lparr>connected := False\<rparr>) c d w = (Inr False, w)
   \<and> send_to_blynk False sys p v w = (Inr False, w)
   \<and> log_event False sys c d w = (Inr False, w)
   \<and> fst (tick mp lc sys w) \<noteq> Inl (Raised e)
   \<and> fst (run_loop mp n lc sys w) \<noteq> Inl (Raised e)
   \<and> run_loop mp 0 lc sys w = (Inr (), sys, w)
   \<and> (all_return w \<longrightarrow>
        fst (tick mp lc sys w) = Inr ()
        \<and> all_return (snd (snd (tick mp lc sys w)))
        \<and> buzzer (fst (snd (tick mp lc sys w)))
            = (if shd (stl (adc_in w)) > threshold (gas_sensor sys)
               then (buzzer sys)\<lparr>buzzer_state := 1, is_alarming := True\<rparr>
               else if is_alarming (buzzer sys)
                    then (buzzer sys)\<lparr>buzzer_state := 0, is_alarming := False\<rparr>
                    else buzzer sys)
        \<and> relay (fst (snd (tick mp lc sys w)))
            = (relay sys)\<lparr>
                garden_state := (if ov_garden (manual_override sys) then garden_state (relay sys)
                                 else if shd (ldr_in w) = 0 then 0 else 1),
                motor_state := (if ov_motor (manual_override sys) then motor_state (relay sys)
                                else if shd (stl (overhead_in w)) \<noteq> 1
                                        \<and> shd (stl (underground_in w)) \<noteq> 0
                                     then 0 else 1)\<rparr>
        \<and> run_loop mp (Suc n) lc sys w
            = run_loop mp n (lc + 1) (fst (snd (tick mp (lc + 1) sys w)))
                (snd (snd (tick mp (lc + 1) sys w)))
        \<and> fst (run_loop mp n lc sys w) = Inr ())"
proof -
  have guards: "send_to_blynk mp (sys\<lparr>connected := False\<rparr>) p v w = (Inr False, w)"
    "log_event mp (sys\<lparr>connected := False\<rparr>) c d w = (Inr False, w)"
    "send_to_blynk False sys p v w = (Inr False, w)"
    "log_event False sys c d w = (Inr False, w)"
    by (simp_all add: send_to_blynk_def log_event_def)
  have passes: "all_return w \<longrightarrow>
        fst (tick mp lc sys w) = Inr ()
        \<and> all_return (snd (snd (tick mp lc sys w)))
        \<and> buzzer (fst (snd (tick mp lc sys w)))
            = (if shd (stl (adc_in w)) > threshold (gas_sensor sys)
               then (buzzer sys)\<lparr>buzzer_state := 1, is_alarming := True\<rparr>
               else if is_alarming (buzzer sys)
                    then (buzzer sys)\<lparr>buzzer_state := 0, is_alarming := False\<rparr>
                    else buzzer sys)
        \<and> relay (fst (snd (tick mp lc sys w)))
            = (relay sys)\<lparr>
                garden_state := (if ov_garden (manual_override sys) then garden_state (relay sys)
                                 else if shd (ldr_in w) = 0 then 0 else 1),
                motor_state := (if ov_motor (manual_override sys) then motor_state (relay sys)
                                else if shd (stl (overhead_in w)) \<noteq> 1
                                        \<and> shd (stl (underground_in w)) \<noteq> 0
                                     then 0 else 1)\<rparr>
        \<and> run_loop mp (Suc n) lc sys w
            = run_loop mp n (lc + 1) (fst (snd (tick mp (lc + 1) sys w)))
                (snd (snd (tick mp (lc + 1) sys w)))
        \<and> fst (run_loop mp n lc sys w) = Inr ()"
    using tick_all_return [of w mp lc sys] tick_relay_all_return [of w mp lc sys]
      run_loop_step [of w mp n lc sys] run_loop_all_return [of w mp n lc sys]
    by (simp add: tick_buzzer handle_gas_buzzer)
  show ?thesis
    using guards passes
    by (simp add: send_to_blynk_returns log_event_returns tick_no_raise run_loop_no_raise)
qed

text \<open>
  Witness for C8 as amended, on the booted system of the leak run with requests that
  fail but come back: the push whose \<^verbatim>\<open>requests.get\<close> raises returns false, and the
  fifth pass, whose every response fails to close, completes with the alarm latched, the
  motor on and the garden light off.
\<close>

theorem telemetry_faults_leave_loop_running_witness:
  "all_return faulty_world
   \<and> fst (send_to_blynk True (fst (snd leak_boot)) V_PIN_GAS_LEVEL 450 faulty_world) = Inr False
   \<and> fst (tick True 5 (fst (snd leak_boot)) faulty_world) = Inr ()
   \<and> is_alarming (buzzer (fst (snd (tick True 5 (fst (snd leak_boot)) faulty_world))))
   \<and> motor_state (relay (fst (snd (tick True 5 (fst (snd leak_boot)) faulty_world)))) = 0
   \<and> garden_state (relay (fst (snd (tick True 5 (fst (snd leak_boot)) faulty_world)))) = 1"
proof -
  have ok: "all_return faulty_world"
    by (simp add: all_return_def faulty_world_def)
  have first: "shd (net_in faulty_world) = GetRaises"
    by (simp add: faulty_world_def)
  have inputs: "shd (stl (adc_in faulty_world)) = 450"
    "threshold (gas_sensor (fst (snd leak_boot))) = 400"
    "\<not> ov_motor (manual_override (fst (snd leak_boot)))"
    "\<not> ov_garden (manual_override (fst (snd leak_boot)))"
    "shd (ldr_in faulty_world) = 1"
    "shd (stl (overhead_in faulty_world)) = 0"
    "shd (stl (underground_in faulty_world)) = 1"
    by (simp_all add: faulty_world_def leak_boot_def leak_world_def eval_defs)
  from telemetry_faults_leave_loop_running [of True "fst (snd leak_boot)" V_PIN_GAS_LEVEL 450
      faulty_world "''gas_alert''" 450 5 OSError 0]
  show ?thesis by (simp add: ok first inputs)
qed

subsection \<open>C9: the buzzer's latch and its drive line\<close>

text \<open>
  Claim C9: after the construction of a \<^verbatim>\<open>BuzzerController\<close> and after any sequence of
  \<^verbatim>\<open>alarm_on\<close>, \<^verbatim>\<open>alarm_off\<close>, \<^verbatim>\<open>beep\<close> and \<^verbatim>\<open>beep_pattern\<close> calls, with any
  arguments, \<^verbatim>\<open>is_alarming\<close> is true if and only if the buzzer line is driven high.
\<close>

theorem buzzer_latch_matches_line:
  "buzzer_consistent (fst (foldl (\<lambda>s op. buzzer_do op s) (BuzzerController_init pin, w) ops))"
  by (rule buzzer_ops_consistent) (simp add: buzzer_consistent_def BuzzerController_init_def)

subsection \<open>C10: a relay command changes one field of the readback\<close>

text \<open>
  Claim C10: for each of the four appliances and every boolean \<open>s\<close>, the command
  \<^verbatim>\<open>control_X(s)\<close> makes the field \<^verbatim>\<open>X\<close> of \<^verbatim>\<open>get_status()\<close> equal to \<open>s\<close> and
  leaves the other three fields as they were.
\<close>

theorem relay_command_frame:
  "RelayController_get_status (fst (control_light s r w))
     = (RelayController_get_status r)\<lparr>rs_light := s\<rparr>
   \<and> RelayController_get_status (fst (control_fan s r w))
     = (RelayController_get_status r)\<lparr>rs_fan := s\<rparr>
   \<and> RelayController_get_status (fst (control_motor s r w))
     = (RelayController_get_status r)\<lparr>rs_motor := s\<rparr>
   \<and> RelayController_get_status (fst (control_garden_light s r w))
     = (RelayController_get_status r)\<lparr>rs_garden := s\<rparr>"
  by (simp add: RelayController_get_status_def control_light_def control_fan_def
        control_motor_def control_garden_light_def)

end
